theory Spec2Isabelle
  imports Complex_Main "HOL-Library.Word"
begin

section \<open>The audio engine (class AudioSync)\<close>

text \<open>
  JavaScript numbers are modelled as real numbers: the rounding of the double and
  single precision formats is left out, and so are NaN and the infinities. An audio
  parameter (\<open>gain\<close>, \<open>playbackRate\<close>) is modelled by the value last written to it with
  \<open>setValueAtTime\<close>. The clock \<open>audioContext.currentTime\<close> is an argument \<open>now\<close> of every
  operation that reads it. Console output is left out.
\<close>

subsection \<open>Data\<close>

text \<open>
  An \<open>AudioBuffer\<close>: one sample list per channel, the sample rate and the duration.
\<close>

record audioBuffer =
  channelData :: "real list list"
  sampleRate :: real
  buf_duration :: real

text \<open>
  An \<open>AudioBufferSourceNode\<close>: the value of its \<open>playbackRate\<close> parameter and the two
  arguments of the call \<open>source.start(when, offset)\<close>.
\<close>

record bufferSource =
  src_playbackRate :: real
  src_when :: real
  src_offset :: real

text \<open>
  The deck object built by \<open>createDeck\<close>. The four audio nodes are modelled by the
  value of their gain parameter.
\<close>

record deck =
  deck_id :: string
  gainNode :: real
  filterHigh :: real
  filterMid :: real
  filterLow :: real
  source :: "bufferSource option"
  buffer :: "audioBuffer option"
  isPlaying :: bool
  currentTime :: real
  startTime :: real
  bpm :: real
  duration :: real
  playbackRate :: real

record sync_state =
  masterDeck :: "string option"
  syncEnabled :: bool
  bpmOffset :: real

text \<open>The argument of the \<open>onSyncUpdate\<close> callback.\<close>

record syncUpdate =
  upd_master :: string
  upd_slave :: string
  upd_masterBPM :: real
  upd_slaveBPM :: real
  upd_adjustedRate :: real
  upd_synced :: bool

text \<open>
  The engine: the map of decks, the synchronisation state, whether a handler is
  stored in \<open>onSyncUpdate\<close>, and the notifications that handler has received so far
  (most recent last).
\<close>

record audioSync =
  decks :: "string \<rightharpoonup> deck"
  syncState :: sync_state
  onSyncUpdate :: bool
  syncUpdates :: "syncUpdate list"

text \<open>The result object of \<open>syncDecks\<close>: one constructor for each of its two shapes.\<close>

datatype syncResult =
  SyncFailure (reason: string)
| SyncSuccess (masterBPM: real) (slaveBPM: real) (res_playbackRate: real)

definition success :: "syncResult \<Rightarrow> bool" where
  "success r = (case r of SyncFailure _ \<Rightarrow> False | SyncSuccess _ _ _ \<Rightarrow> True)"

text \<open>Exceptions of the host interfaces, as values.\<close>

datatype jsError = IndexSizeError

subsection \<open>Construction\<close>

text \<open>The engine as the constructor leaves it.\<close>

definition newAudioSync :: audioSync where
  "newAudioSync =
     \<lparr>decks = Map.empty,
      syncState = \<lparr>masterDeck = None, syncEnabled = False, bpmOffset = 0\<rparr>,
      onSyncUpdate = False,
      syncUpdates = []\<rparr>"

text \<open>
  \<open>createDeck(deckId)\<close>: an existing deck is returned as it is; a new one has flat
  filters, no source, no buffer, rate 1. The gain node keeps the default gain 1 of
  the host interface.
\<close>

definition createDeck :: "audioSync \<Rightarrow> string \<Rightarrow> deck \<times> audioSync" where
  "createDeck s deckId =
     (case decks s deckId of
        Some d \<Rightarrow> (d, s)
      | None \<Rightarrow>
          (let d = \<lparr>deck_id = deckId, gainNode = 1, filterHigh = 0, filterMid = 0,
                    filterLow = 0, source = None, buffer = None, isPlaying = False,
                    currentTime = 0, startTime = 0, bpm = 0, duration = 0,
                    playbackRate = 1\<rparr>
           in (d, s\<lparr>decks := (decks s)(deckId \<mapsto> d)\<rparr>)))"

subsection \<open>Transport\<close>

text \<open>
  The operator \<open>a || b\<close> on numbers: \<open>a\<close> when it is truthy, that is not zero,
  otherwise \<open>b\<close>.
\<close>

definition jsOr :: "real \<Rightarrow> real \<Rightarrow> real" where
  "jsOr a b = (if a \<noteq> 0 then a else b)"

text \<open>
  \<open>play(deckId, offset = 0)\<close>. The offset argument is optional: \<open>None\<close> is a call
  without it, for which the default value 0 is taken. The source that was in the deck
  is stopped and replaced.
\<close>

definition play :: "audioSync \<Rightarrow> string \<Rightarrow> real option \<Rightarrow> real \<Rightarrow> bool \<times> audioSync" where
  "play s deckId offsetArg now =
     (case decks s deckId of
        None \<Rightarrow> (False, s)
      | Some d \<Rightarrow>
          (case buffer d of
             None \<Rightarrow> (False, s)
           | Some buf \<Rightarrow>
               (let offset = (case offsetArg of None \<Rightarrow> 0 | Some x \<Rightarrow> x);
                    startOffset = jsOr (jsOr offset (currentTime d)) 0;
                    src = \<lparr>src_playbackRate = playbackRate d, src_when = now,
                           src_offset = startOffset\<rparr>;
                    d' = d\<lparr>source := Some src, isPlaying := True,
                           startTime := now - startOffset\<rparr>
                in (True, s\<lparr>decks := (decks s)(deckId \<mapsto> d')\<rparr>))))"

text \<open>
  The handler \<open>source.onended\<close> that \<open>play\<close> installs, run when the host reports the
  end of a source of the deck.
\<close>

definition onended :: "audioSync \<Rightarrow> string \<Rightarrow> audioSync" where
  "onended s deckId =
     (case decks s deckId of
        None \<Rightarrow> s
      | Some d \<Rightarrow>
          if isPlaying d
          then s\<lparr>decks := (decks s)(deckId \<mapsto> d\<lparr>isPlaying := False, currentTime := 0\<rparr>)\<rparr>
          else s)"

definition pause :: "audioSync \<Rightarrow> string \<Rightarrow> real \<Rightarrow> bool \<times> audioSync" where
  "pause s deckId now =
     (case decks s deckId of
        None \<Rightarrow> (False, s)
      | Some d \<Rightarrow>
          if \<not> isPlaying d then (False, s)
          else
            (let d' = d\<lparr>currentTime := now - startTime d, source := None,
                        isPlaying := False\<rparr>
             in (True, s\<lparr>decks := (decks s)(deckId \<mapsto> d')\<rparr>)))"

definition stop :: "audioSync \<Rightarrow> string \<Rightarrow> bool \<times> audioSync" where
  "stop s deckId =
     (case decks s deckId of
        None \<Rightarrow> (False, s)
      | Some d \<Rightarrow>
          (let d' = d\<lparr>source := None, isPlaying := False, currentTime := 0\<rparr>
           in (True, s\<lparr>decks := (decks s)(deckId \<mapsto> d')\<rparr>)))"

definition getCurrentTime :: "audioSync \<Rightarrow> string \<Rightarrow> real \<Rightarrow> real" where
  "getCurrentTime s deckId now =
     (case decks s deckId of
        None \<Rightarrow> 0
      | Some d \<Rightarrow> if isPlaying d then now - startTime d else currentTime d)"

subsection \<open>Parameter setters\<close>

definition setVolume :: "audioSync \<Rightarrow> string \<Rightarrow> real \<Rightarrow> audioSync" where
  "setVolume s deckId volume =
     (case decks s deckId of
        None \<Rightarrow> s
      | Some d \<Rightarrow>
          (let clampedVolume = max 0 (min 1 volume)
           in s\<lparr>decks := (decks s)(deckId \<mapsto> d\<lparr>gainNode := clampedVolume\<rparr>)\<rparr>))"

text \<open>
  \<open>setEQ(deckId, band, gain)\<close>: the gain is clamped with
  \<open>Math.max(-40, Math.min(40, gain))\<close>; the \<open>switch\<close> has no default, so a band other
  than the three names changes nothing.
\<close>

definition setEQ :: "audioSync \<Rightarrow> string \<Rightarrow> string \<Rightarrow> real \<Rightarrow> audioSync" where
  "setEQ s deckId band gain =
     (case decks s deckId of
        None \<Rightarrow> s
      | Some d \<Rightarrow>
          (let clampedGain = max (- 40) (min 40 gain);
               d' = (if band = ''high'' then d\<lparr>filterHigh := clampedGain\<rparr>
                     else if band = ''mid'' then d\<lparr>filterMid := clampedGain\<rparr>
                     else if band = ''low'' then d\<lparr>filterLow := clampedGain\<rparr>
                     else d)
           in s\<lparr>decks := (decks s)(deckId \<mapsto> d')\<rparr>))"

text \<open>
  \<open>setPlaybackRate(deckId, rate)\<close>: nothing for an unknown deck; otherwise the rate
  clamped with \<open>Math.max(0.5, Math.min(2.0, rate))\<close> is stored in the deck and, when
  the deck has a source and is playing, written to the source as well.
\<close>

definition setPlaybackRate :: "audioSync \<Rightarrow> string \<Rightarrow> real \<Rightarrow> audioSync" where
  "setPlaybackRate s deckId rate =
     (case decks s deckId of
        None \<Rightarrow> s
      | Some d \<Rightarrow>
          (let clampedRate = max (1/2) (min 2 rate);
               d1 = d\<lparr>playbackRate := clampedRate\<rparr>;
               d2 = (case source d1 of
                       Some src \<Rightarrow>
                         if isPlaying d1
                         then d1\<lparr>source := Some (src\<lparr>src_playbackRate := clampedRate\<rparr>)\<rparr>
                         else d1
                     | None \<Rightarrow> d1)
           in s\<lparr>decks := (decks s)(deckId \<mapsto> d2)\<rparr>))"

text \<open>
  The rate stored in a deck, and the rate and the start offset of its source, read back
  from the engine.
\<close>

definition storedRate :: "audioSync \<Rightarrow> string \<Rightarrow> real option" where
  "storedRate s deckId = map_option playbackRate (decks s deckId)"

definition sourceRate :: "audioSync \<Rightarrow> string \<Rightarrow> real option" where
  "sourceRate s deckId =
     (case decks s deckId of
        None \<Rightarrow> None
      | Some d \<Rightarrow> map_option src_playbackRate (source d))"

definition sourceOffset :: "audioSync \<Rightarrow> string \<Rightarrow> real option" where
  "sourceOffset s deckId =
     (case decks s deckId of
        None \<Rightarrow> None
      | Some d \<Rightarrow> map_option src_offset (source d))"

subsection \<open>Tempo synchronisation\<close>

text \<open>
  \<open>syncDecks(masterDeckId, slaveDeckId)\<close>. A BPM is falsy when it is 0. The handler in
  \<open>onSyncUpdate\<close>, when there is one, receives one notification. The BPM values read
  after \<open>setPlaybackRate\<close> are those read before it, since that call writes no BPM
  (lemma \<open>setPlaybackRate_bpm\<close> below).
\<close>

definition syncDecks :: "audioSync \<Rightarrow> string \<Rightarrow> string \<Rightarrow> syncResult \<times> audioSync" where
  "syncDecks s masterDeckId slaveDeckId =
     (case decks s masterDeckId of
        None \<Rightarrow> (SyncFailure ''missing_bpm'', s)
      | Some masterD \<Rightarrow>
          (case decks s slaveDeckId of
             None \<Rightarrow> (SyncFailure ''missing_bpm'', s)
           | Some slaveD \<Rightarrow>
               if bpm masterD = 0 \<or> bpm slaveD = 0 then (SyncFailure ''missing_bpm'', s)
               else
                 (let bpmRatio = bpm masterD / bpm slaveD;
                      adjustedRate = playbackRate slaveD * bpmRatio;
                      s1 = setPlaybackRate s slaveDeckId adjustedRate;
                      s2 = s1\<lparr>syncState :=
                              \<lparr>masterDeck = Some masterDeckId, syncEnabled = True,
                               bpmOffset = bpm masterD - bpm slaveD\<rparr>\<rparr>;
                      s3 = (if onSyncUpdate s2
                            then s2\<lparr>syncUpdates := syncUpdates s2 @
                                   [\<lparr>upd_master = masterDeckId, upd_slave = slaveDeckId,
                                     upd_masterBPM = bpm masterD, upd_slaveBPM = bpm slaveD,
                                     upd_adjustedRate = adjustedRate, upd_synced = True\<rparr>]\<rparr>
                            else s2)
                  in (SyncSuccess (bpm masterD) (bpm slaveD) adjustedRate, s3))))"

subsection \<open>Tempo estimation\<close>

text \<open>
  \<open>buffer.getChannelData(channel)\<close> of the host raises \<open>IndexSizeError\<close> for a channel
  the buffer does not have.
\<close>

definition getChannelData :: "audioBuffer \<Rightarrow> nat \<Rightarrow> jsError + real list" where
  "getChannelData b channel =
     (if channel < length (channelData b) then Inr (channelData b ! channel)
      else Inl IndexSizeError)"

text \<open>
  \<open>lowPassFilter(data, sampleRate, cutoffFreq)\<close>: the first sample is copied, every
  later one is \<open>filtered[i - 1] + alpha * (data[i] - filtered[i - 1])\<close>. On an empty
  array the write to index 0 is dropped and the result is empty.
\<close>

fun lowPassLoop :: "real \<Rightarrow> real \<Rightarrow> real list \<Rightarrow> real list" where
  "lowPassLoop alpha prev [] = []"
| "lowPassLoop alpha prev (x # xs) =
     (let y = prev + alpha * (x - prev) in y # lowPassLoop alpha y xs)"

definition lowPassFilter :: "real list \<Rightarrow> real \<Rightarrow> real \<Rightarrow> real list" where
  "lowPassFilter data sRate cutoffFreq =
     (let RC = 1 / (2 * pi * cutoffFreq);
          dt = 1 / sRate;
          alpha = dt / (RC + dt)
      in case data of [] \<Rightarrow> [] | x # xs \<Rightarrow> x # lowPassLoop alpha x xs)"

text \<open>\<open>calculateThreshold(data)\<close>: one and a half times the root mean square.\<close>

definition calculateThreshold :: "real list \<Rightarrow> real" where
  "calculateThreshold data =
     (let sum = foldl (\<lambda>acc x. acc + x * x) 0 data;
          rms = sqrt (sum / real (length data))
      in rms * (3/2))"

text \<open>
  \<open>detectPeaks(data, sampleRate)\<close>. The loop runs over the indices
  \<open>1, \<dots>, data.length - 2\<close>, none when the array has fewer than three samples; its
  state is the list of peak times and the index of the last peak.
\<close>

definition peakStep ::
  "real list \<Rightarrow> real \<Rightarrow> real \<Rightarrow> int \<Rightarrow> real list \<times> int \<Rightarrow> nat \<Rightarrow> real list \<times> int" where
  "peakStep data sRate threshold minPeakDistance st i =
     (case st of (peaks, lastPeak) \<Rightarrow>
        if data ! i > threshold \<and> data ! i > data ! (i - 1) \<and> data ! i > data ! (i + 1)
           \<and> int i - lastPeak \<ge> minPeakDistance
        then (peaks @ [real i / sRate], int i)
        else (peaks, lastPeak))"

definition detectPeaks :: "real list \<Rightarrow> real \<Rightarrow> real list" where
  "detectPeaks data sRate =
     (let minPeakDistance = \<lfloor>sRate * (3/10)\<rfloor>;
          threshold = calculateThreshold data
      in fst (foldl (peakStep data sRate threshold minPeakDistance)
                ([], - minPeakDistance) [1 ..< length data - 1]))"

text \<open>The loop of \<open>detectBPM\<close> that collects \<open>peaks[i] - peaks[i - 1]\<close> for \<open>i \<ge> 1\<close>.\<close>

fun peakIntervals :: "real list \<Rightarrow> real list" where
  "peakIntervals (p # q # ps) = (q - p) # peakIntervals (q # ps)"
| "peakIntervals ps = []"

text \<open>
  The body of the \<open>try\<close> block of \<open>detectBPM\<close>, with the value it resolves or the
  exception it raises. \<open>Math.round(x)\<close> is \<open>\<lfloor>x + 1/2\<rfloor>\<close>, which is \<^const>\<open>round\<close>.
\<close>

definition detectBPM_try :: "audioBuffer \<Rightarrow> jsError + real" where
  "detectBPM_try b =
     (case getChannelData b 0 of
        Inl e \<Rightarrow> Inl e
      | Inr audioData \<Rightarrow>
          (let sRate = sampleRate b;
               filtered = lowPassFilter audioData sRate 200;
               peaks = detectPeaks filtered sRate;
               intervals = peakIntervals peaks
           in if length intervals = 0 then Inr 120
              else
                (let sorted = sort intervals;
                     medianInterval = sorted ! (length sorted div 2);
                     bpmValue = real_of_int (round (60 / medianInterval));
                     clampedBPM = max 60 (min 200 bpmValue)
                 in Inr clampedBPM)))"

text \<open>\<open>detectBPM(buffer)\<close>: the \<open>catch\<close> clause resolves 120.\<close>

definition detectBPM :: "audioBuffer \<Rightarrow> real" where
  "detectBPM b = (case detectBPM_try b of Inl e \<Rightarrow> 120 | Inr v \<Rightarrow> v)"

subsection \<open>Loading\<close>

text \<open>
  \<open>loadAudioFile(deckId, file)\<close>, from the buffer that \<open>decodeAudioData\<close> delivered:
  the deck is fetched or created and receives the buffer, its duration and its
  estimated tempo.
\<close>

definition loadAudioFile :: "audioSync \<Rightarrow> string \<Rightarrow> audioBuffer \<Rightarrow> audioSync" where
  "loadAudioFile s deckId audioBuf =
     (case createDeck s deckId of
        (d, s1) \<Rightarrow>
          s1\<lparr>decks := (decks s1)(deckId \<mapsto>
                 d\<lparr>buffer := Some audioBuf, duration := buf_duration audioBuf,
                   bpm := detectBPM audioBuf\<rparr>)\<rparr>)"

section \<open>Hardware control (class AnalogDeck)\<close>

subsection \<open>Timecode\<close>

record timecodeData =
  position :: real
  speed :: real
  direction :: string
  quality :: real

text \<open>
  The detector: whether it runs and whether a handler is stored in \<open>onDetected\<close>.
\<close>

record timecodeDetector =
  isRunning :: bool
  onDetected :: bool

text \<open>
  One round of \<open>TimecodeDetector.detect\<close>, on the byte array \<open>freqData\<close> the analyser
  filled and the three values \<open>r1\<close>, \<open>r2\<close>, \<open>r3\<close> that \<open>Math.random()\<close> returned, in
  the order of the calls. The result is the sample handed to \<open>onDetected\<close>, if any.
  The constant \<open>avgLevel\<close> is the mean of the bytes, computed with \<open>reduce\<close>.
\<close>

definition avgLevel :: "8 word list \<Rightarrow> real" where
  "avgLevel freqData =
     real (foldl (\<lambda>a b. a + unat b) 0 freqData) / real (length freqData)"

definition detect ::
  "timecodeDetector \<Rightarrow> 8 word list \<Rightarrow> real \<Rightarrow> real \<Rightarrow> real \<Rightarrow> timecodeData option" where
  "detect det freqData r1 r2 r3 =
     (if \<not> isRunning det then None
      else if avgLevel freqData > 50
      then
        (let td = \<lparr>position = r1 * 1000,
                   speed = 1 + (r2 - 1/2) * (2/10),
                   direction = (if r3 > 1/2 then ''forward'' else ''backward''),
                   quality = min 100 (avgLevel freqData * 2)\<rparr>
         in if onDetected det then Some td else None)
      else None)"

text \<open>\<open>applyDVSControl(deckId, timecodeData)\<close>, on the engine the object holds.\<close>

definition applyDVSControl :: "audioSync \<Rightarrow> string \<Rightarrow> timecodeData \<Rightarrow> audioSync" where
  "applyDVSControl s deckId td =
     (case decks s deckId of
        None \<Rightarrow> s
      | Some d \<Rightarrow>
          (case source d of
             None \<Rightarrow> s
           | Some src \<Rightarrow>
               (let rate = speed td * (if direction td = ''forward'' then 1 else - 1);
                    s1 = setPlaybackRate s deckId \<bar>rate\<bar>
                in if direction td = ''backward'' \<and> isPlaying d
                   then setPlaybackRate s1 deckId (1/10)
                   else s1)))"

subsection \<open>MIDI\<close>

record midiMapping =
  map_inputId :: string
  map_note :: nat
  action :: string
  map_deckId :: "string option"
  parameter :: "string option"

record midiEvent =
  inputId :: string
  command :: string
  channel :: nat
  midi_note :: nat
  velocity :: nat
  midi_value :: real
  timestamp :: real

text \<open>
  The object: the engine it drives and the table of mappings, keyed by the string
  \<open>inputId-note\<close>.
\<close>

record analogDeck =
  engine :: audioSync
  midiMappings :: "string \<rightharpoonup> midiMapping"

text \<open>A number in a template string: its decimal digits.\<close>

fun showNat :: "nat \<Rightarrow> string" where
  "showNat n =
     (if n < 10 then [char_of (48 + n)]
      else showNat (n div 10) @ [char_of (48 + n mod 10)])"

definition mappingKey :: "string \<Rightarrow> nat \<Rightarrow> string" where
  "mappingKey inp n = inp @ ''-'' @ showNat n"

definition addMIDIMapping :: "analogDeck \<Rightarrow> midiMapping \<Rightarrow> analogDeck" where
  "addMIDIMapping a m =
     a\<lparr>midiMappings := (midiMappings a)(mappingKey (map_inputId m) (map_note m) \<mapsto> m)\<rparr>"

definition removeMIDIMapping :: "analogDeck \<Rightarrow> string \<Rightarrow> nat \<Rightarrow> analogDeck" where
  "removeMIDIMapping a inp n =
     a\<lparr>midiMappings := (midiMappings a)(mappingKey inp n := None)\<rparr>"

text \<open>
  \<open>applyMIDIMapping(midiEvent)\<close>. A mapping without \<open>deckId\<close> or without \<open>parameter\<close>
  passes \<open>undefined\<close> on: the engine has no deck under that key and \<open>setEQ\<close> no such
  band, so those calls change nothing. The actions \<open>crossfader\<close>, \<open>cue\<close> and
  \<open>hotcue\<close> and the default branch change nothing either.
\<close>

definition applyMIDIMapping :: "analogDeck \<Rightarrow> midiEvent \<Rightarrow> real \<Rightarrow> analogDeck" where
  "applyMIDIMapping a ev now =
     (case midiMappings a (mappingKey (inputId ev) (midi_note ev)) of
        None \<Rightarrow> a
      | Some m \<Rightarrow>
          (case map_deckId m of
             None \<Rightarrow> a
           | Some deckId \<Rightarrow>
               if action m = ''play'' then
                 (if command ev = ''noteon''
                  then a\<lparr>engine := snd (play (engine a) deckId None now)\<rparr> else a)
               else if action m = ''pause'' then
                 (if command ev = ''noteon''
                  then a\<lparr>engine := snd (pause (engine a) deckId now)\<rparr> else a)
               else if action m = ''volume'' then
                 a\<lparr>engine := setVolume (engine a) deckId (midi_value ev)\<rparr>
               else if action m = ''eq'' then
                 (let gain = (midi_value ev - 1/2) * 24
                  in case parameter m of
                       None \<Rightarrow> a
                     | Some band \<Rightarrow> a\<lparr>engine := setEQ (engine a) deckId band gain\<rparr>)
               else if action m = ''pitch'' then
                 (let pitchRange = 16/100;
                      pitchValue = 1 + ((midi_value ev - 1/2) * 2 * pitchRange)
                  in a\<lparr>engine := setPlaybackRate (engine a) deckId pitchValue\<rparr>)
               else a))"

text \<open>The gain of one band of a deck, read back from the engine.\<close>

definition bandGain :: "audioSync \<Rightarrow> string \<Rightarrow> string \<Rightarrow> real option" where
  "bandGain s deckId band =
     (case decks s deckId of
        None \<Rightarrow> None
      | Some d \<Rightarrow>
          if band = ''high'' then Some (filterHigh d)
          else if band = ''mid'' then Some (filterMid d)
          else if band = ''low'' then Some (filterLow d)
          else None)"

section \<open>The host's event loop\<close>

text \<open>
  The program runs on a host that dispatches \<open>ended\<close> to a source node once, when the
  node stops playing: after \<open>stop()\<close> on a node that was still playing, or when the
  playhead leaves the buffer. The handler that \<open>play\<close> installed then runs, between
  two calls of the program and never inside one. The host is modelled by the engine
  together with the decks whose source node is still playing and the decks whose
  handler is queued.
\<close>

record host =
  hostEngine :: audioSync
  liveSources :: "string list"
  queuedEnded :: "string list"

text \<open>
  Whether the source of a deck has played to an end of its buffer at time \<open>now\<close>. The
  start offset is clamped into the buffer; the rate of the source is taken constant
  since its start, and the buffer of the deck is the one the source was given.
\<close>

definition ranOut :: "deck \<Rightarrow> real \<Rightarrow> bool" where
  "ranOut d now =
     (case source d of
        None \<Rightarrow> False
      | Some src \<Rightarrow>
          (case buffer d of
             None \<Rightarrow> False
           | Some buf \<Rightarrow>
               (let started = max 0 (min (buf_duration buf) (src_offset src));
                    playhead = started + (now - src_when src) * src_playbackRate src
                in (0 < src_playbackRate src \<and> buf_duration buf \<le> playhead)
                   \<or> (src_playbackRate src < 0 \<and> playhead < 0))))"

text \<open>Whether the \<open>stop()\<close> in \<open>play\<close> and \<open>pause\<close> reaches a node that still plays.\<close>

definition stopsLive :: "host \<Rightarrow> string \<Rightarrow> bool" where
  "stopsLive h deckId =
     (case decks (hostEngine h) deckId of
        None \<Rightarrow> False
      | Some d \<Rightarrow> source d \<noteq> None \<and> deckId \<in> set (liveSources h))"

text \<open>
  The calls \<open>play\<close> and \<open>pause\<close> as the host sees them: the engine does what the
  program says, a node stopped while playing gets its event queued, and the node that
  \<open>play\<close> starts is playing.
\<close>

definition hostPlay :: "host \<Rightarrow> string \<Rightarrow> real option \<Rightarrow> real \<Rightarrow> bool \<times> host" where
  "hostPlay h deckId offsetArg now =
     (case play (hostEngine h) deckId offsetArg now of
        (ok, s') \<Rightarrow>
          if ok
          then (True,
                \<lparr>hostEngine = s',
                 liveSources = deckId # removeAll deckId (liveSources h),
                 queuedEnded = queuedEnded h @ (if stopsLive h deckId then [deckId] else [])\<rparr>)
          else (False, h))"

definition hostPause :: "host \<Rightarrow> string \<Rightarrow> real \<Rightarrow> bool \<times> host" where
  "hostPause h deckId now =
     (case pause (hostEngine h) deckId now of
        (ok, s') \<Rightarrow>
          if ok
          then (True,
                \<lparr>hostEngine = s',
                 liveSources = removeAll deckId (liveSources h),
                 queuedEnded = queuedEnded h @ (if stopsLive h deckId then [deckId] else [])\<rparr>)
          else (False, h))"

text \<open>
  One turn of the event loop at time \<open>now\<close>: the nodes that have played to their end
  join the queue, and the handler \<open>onended\<close> runs for every queued event.
\<close>

definition finishedBy :: "host \<Rightarrow> real \<Rightarrow> string list" where
  "finishedBy h now =
     filter (\<lambda>k. case decks (hostEngine h) k of None \<Rightarrow> False | Some d \<Rightarrow> ranOut d now)
       (liveSources h)"

definition eventLoop :: "host \<Rightarrow> real \<Rightarrow> host" where
  "eventLoop h now =
     (let finished = finishedBy h now
      in \<lparr>hostEngine = foldl onended (hostEngine h) (queuedEnded h @ finished),
          liveSources = filter (\<lambda>k. k \<notin> set finished) (liveSources h),
          queuedEnded = []\<rparr>)"

section \<open>Example states\<close>

text \<open>
  Concrete inputs on which the operations are run below. The buffer is four samples
  of silence; the second buffer has no channel, so that \<open>getChannelData(0)\<close> raises.
\<close>

definition exampleBuffer :: audioBuffer where
  "exampleBuffer =
     \<lparr>channelData = [[0, 0, 0, 0]], sampleRate = 44100, buf_duration = 4 / 44100\<rparr>"

definition noChannelBuffer :: audioBuffer where
  "noChannelBuffer = \<lparr>channelData = [], sampleRate = 44100, buf_duration = 0\<rparr>"

text \<open>An engine with deck \<open>a\<close> loaded; the same playing from its start; the same
  played from second 10 at time 0 and paused at time 5.\<close>

definition loadedEngine :: audioSync where
  "loadedEngine = loadAudioFile newAudioSync ''a'' exampleBuffer"

definition playingEngine :: audioSync where
  "playingEngine = snd (play loadedEngine ''a'' None 0)"

definition pausedEngine :: audioSync where
  "pausedEngine = snd (pause (snd (play loadedEngine ''a'' (Some 10) 0)) ''a'' 5)"

text \<open>
  The setting of \<open>example2_BPMSync\<close> in the examples file: two fresh decks whose
  \<open>bpm\<close> fields are assigned 128 and 124, and a handler in \<open>onSyncUpdate\<close>.
\<close>

definition assignBpm :: "audioSync \<Rightarrow> string \<Rightarrow> real \<Rightarrow> audioSync" where
  "assignBpm s deckId v =
     (case decks s deckId of
        None \<Rightarrow> s
      | Some d \<Rightarrow> s\<lparr>decks := (decks s)(deckId \<mapsto> d\<lparr>bpm := v\<rparr>)\<rparr>)"

definition twoDecks :: audioSync where
  "twoDecks = snd (createDeck (snd (createDeck newAudioSync ''a'')) ''b'')"

definition example2_engine :: audioSync where
  "example2_engine =
     (assignBpm (assignBpm twoDecks ''a'' 128) ''b'' 124)\<lparr>onSyncUpdate := True\<rparr>"

text \<open>A running detector with a handler, and a backward sample at nominal speed.\<close>

definition runningDetector :: timecodeDetector where
  "runningDetector = \<lparr>isRunning = True, onDetected = True\<rparr>"

definition backwardSample :: timecodeData where
  "backwardSample = \<lparr>position = 0, speed = 1, direction = ''backward'', quality = 100\<rparr>"

text \<open>
  A controller object over the two decks with the mapping of the high band of deck
  \<open>a\<close> from the preset table, registered for the input \<open>in1\<close>, and a control change
  event of that knob with normalised value \<open>v\<close>.
\<close>

definition exampleAnalogDeck :: analogDeck where
  "exampleAnalogDeck =
     addMIDIMapping \<lparr>engine = twoDecks, midiMappings = Map.empty\<rparr>
       \<lparr>map_inputId = ''in1'', map_note = 16, action = ''eq'', map_deckId = Some ''a'',
        parameter = Some ''high''\<rparr>"

definition eqEvent :: "real \<Rightarrow> midiEvent" where
  "eqEvent v =
     \<lparr>inputId = ''in1'', command = ''controlchange'', channel = 0, midi_note = 16,
      velocity = 0, midi_value = v, timestamp = 0\<rparr>"

text \<open>
  Twenty seconds of silence; the engine with that buffer on deck \<open>a\<close>; a host in
  which no node plays and no event waits.
\<close>

definition longBuffer :: audioBuffer where
  "longBuffer = \<lparr>channelData = [replicate 882000 0], sampleRate = 44100, buf_duration = 20\<rparr>"

definition longEngine :: audioSync where
  "longEngine = loadAudioFile newAudioSync ''a'' longBuffer"

definition idleHost :: "audioSync \<Rightarrow> host" where
  "idleHost s = \<lparr>hostEngine = s, liveSources = [], queuedEnded = []\<rparr>"


definition replacedRun :: host where
  "replacedRun =
     eventLoop (snd (hostPlay (eventLoop (snd (hostPlay (idleHost longEngine) ''a'' None 0)) 1)
                       ''a'' (Some 10) 2)) 3"

section \<open>Properties\<close>

subsection \<open>Auxiliary facts\<close>

lemma setPlaybackRate_bpm:
  "decks (setPlaybackRate s deckId rate) k = Some d' \<Longrightarrow>
   \<exists>d. decks s k = Some d \<and> bpm d = bpm d'"
  by (auto simp: setPlaybackRate_def Let_def split: option.splits if_splits)

lemma setPlaybackRate_stored:
  "decks s deckId = Some d \<Longrightarrow>
   storedRate (setPlaybackRate s deckId rate) deckId = Some (max (1/2) (min 2 rate))"
  by (simp add: setPlaybackRate_def storedRate_def Let_def split: option.splits)

lemma min_double: "50 < (c::real) \<Longrightarrow> min 100 (c * 2) = 100"
  by (simp add: min_def)

lemma peakIntervals_short: "length ps < 2 \<Longrightarrow> peakIntervals ps = []"
  by (cases ps rule: peakIntervals.cases) auto

lemma clamped_bpm_int: "max 60 (min 200 (real_of_int k)) \<in> \<int>"
  by (simp add: max_def min_def)

lemma decks_twoDecks_a:
  "decks twoDecks ''a'' =
     Some \<lparr>deck_id = ''a'', gainNode = 1, filterHigh = 0, filterMid = 0, filterLow = 0,
           source = None, buffer = None, isPlaying = False, currentTime = 0,
           startTime = 0, bpm = 0, duration = 0, playbackRate = 1\<rparr>"
  by (simp add: twoDecks_def createDeck_def newAudioSync_def Let_def)

lemma decks_twoDecks_b:
  "decks twoDecks ''b'' =
     Some \<lparr>deck_id = ''b'', gainNode = 1, filterHigh = 0, filterMid = 0, filterLow = 0,
           source = None, buffer = None, isPlaying = False, currentTime = 0,
           startTime = 0, bpm = 0, duration = 0, playbackRate = 1\<rparr>"
  by (simp add: twoDecks_def createDeck_def newAudioSync_def Let_def)

lemma decks_example2_a:
  "decks example2_engine ''a'' =
     Some \<lparr>deck_id = ''a'', gainNode = 1, filterHigh = 0, filterMid = 0, filterLow = 0,
           source = None, buffer = None, isPlaying = False, currentTime = 0,
           startTime = 0, bpm = 128, duration = 0, playbackRate = 1\<rparr>"
  by (simp add: example2_engine_def assignBpm_def decks_twoDecks_a decks_twoDecks_b)

lemma decks_example2_b:
  "decks example2_engine ''b'' =
     Some \<lparr>deck_id = ''b'', gainNode = 1, filterHigh = 0, filterMid = 0, filterLow = 0,
           source = None, buffer = None, isPlaying = False, currentTime = 0,
           startTime = 0, bpm = 124, duration = 0, playbackRate = 1\<rparr>"
  by (simp add: example2_engine_def assignBpm_def decks_twoDecks_a decks_twoDecks_b)

lemma examplePeaks:
  "detectPeaks (lowPassFilter [0, 0, 0, 0] 44100 200) 44100 = []"
  by (simp add: lowPassFilter_def detectPeaks_def calculateThreshold_def peakStep_def
      Let_def upt_rec)

lemma detectBPM_exampleBuffer: "detectBPM exampleBuffer = 120"
  by (simp add: detectBPM_def detectBPM_try_def getChannelData_def exampleBuffer_def
      examplePeaks Let_def)

lemma decks_loadedEngine:
  "decks loadedEngine ''a'' =
     Some \<lparr>deck_id = ''a'', gainNode = 1, filterHigh = 0, filterMid = 0, filterLow = 0,
           source = None, buffer = Some exampleBuffer, isPlaying = False, currentTime = 0,
           startTime = 0, bpm = 120, duration = buf_duration exampleBuffer,
           playbackRate = 1\<rparr>"
  by (simp add: loadedEngine_def loadAudioFile_def createDeck_def newAudioSync_def Let_def
      detectBPM_exampleBuffer)

lemma decks_playingEngine:
  "decks playingEngine ''a'' =
     Some \<lparr>deck_id = ''a'', gainNode = 1, filterHigh = 0, filterMid = 0, filterLow = 0,
           source = Some \<lparr>src_playbackRate = 1, src_when = 0, src_offset = 0\<rparr>,
           buffer = Some exampleBuffer, isPlaying = True, currentTime = 0,
           startTime = 0, bpm = 120, duration = buf_duration exampleBuffer,
           playbackRate = 1\<rparr>"
  by (simp add: playingEngine_def play_def decks_loadedEngine jsOr_def Let_def)

lemma decks_pausedEngine:
  "decks pausedEngine ''a'' =
     Some \<lparr>deck_id = ''a'', gainNode = 1, filterHigh = 0, filterMid = 0, filterLow = 0,
           source = None, buffer = Some exampleBuffer, isPlaying = False, currentTime = 15,
           startTime = - 10, bpm = 120, duration = buf_duration exampleBuffer,
           playbackRate = 1\<rparr>"
  by (simp add: pausedEngine_def play_def pause_def decks_loadedEngine jsOr_def Let_def)

text \<open>
  A backward sample leaves every playing deck that has a source at the lower bound of
  the clamp, whatever its speed.
\<close>

lemma applyDVSControl_backward_rate:
  assumes "decks s deckId = Some d" and "source d = Some src" and "isPlaying d"
    and "direction td = ''backward''"
  shows "storedRate (applyDVSControl s deckId td) deckId = Some (1/2)"
  using assms
  by (simp add: applyDVSControl_def setPlaybackRate_def storedRate_def Let_def)

text \<open>The detector does emit the backward sample used below.\<close>

lemma detect_backwardSample:
  "detect runningDetector [100, 100] 0 (1/2) 0 = Some backwardSample"
  by (simp add: detect_def avgLevel_def runningDetector_def backwardSample_def Let_def)

text \<open>
  With a positive sample rate the peak times grow strictly, so every interval, and
  with it the median that \<open>detectBPM\<close> divides by, is positive.
\<close>

lemma peakStep_cases:
  "peakStep data sRate th mpd (peaks, lp) i = (peaks @ [real i / sRate], int i) \<or>
   peakStep data sRate th mpd (peaks, lp) i = (peaks, lp)"
  by (simp add: peakStep_def)

lemma peakLoop_increasing:
  assumes "0 < sRate"
  shows "sorted_wrt (<) (fst (foldl (peakStep data sRate th mpd) ([], l0) [a ..< n])) \<and>
         (\<forall>p \<in> set (fst (foldl (peakStep data sRate th mpd) ([], l0) [a ..< n])).
            p < real n / sRate)"
proof (induction n)
  case 0
  show ?case by simp
next
  case (Suc n)
  show ?case
  proof (cases "a \<le> n")
    case False
    then show ?thesis by simp
  next
    case True
    obtain peaks lastPeak where st:
      "foldl (peakStep data sRate th mpd) ([], l0) [a ..< n] = (peaks, lastPeak)"
      by (cases "foldl (peakStep data sRate th mpd) ([], l0) [a ..< n]")
    from Suc st have srt: "sorted_wrt (<) peaks" and below: "\<forall>p \<in> set peaks. p < real n / sRate"
      by simp_all
    have step: "real n / sRate < real (Suc n) / sRate"
      using assms by (simp add: divide_strict_right_mono)
    from below step have below': "\<forall>p \<in> set peaks. p < real (Suc n) / sRate"
      by fastforce
    from True st have unroll:
      "foldl (peakStep data sRate th mpd) ([], l0) [a ..< Suc n] =
         peakStep data sRate th mpd (peaks, lastPeak) n"
      by simp
    from peakStep_cases [of data sRate th mpd peaks lastPeak n] show ?thesis
    proof
      assume "peakStep data sRate th mpd (peaks, lastPeak) n = (peaks @ [real n / sRate], int n)"
      with unroll srt below below' step show ?thesis
        by (simp add: sorted_wrt_append)
    next
      assume "peakStep data sRate th mpd (peaks, lastPeak) n = (peaks, lastPeak)"
      with unroll srt below' show ?thesis by simp
    qed
  qed
qed

lemma detectPeaks_increasing:
  "0 < sRate \<Longrightarrow> sorted_wrt (<) (detectPeaks data sRate)"
  using peakLoop_increasing by (simp add: detectPeaks_def Let_def)

lemma peakIntervals_positive:
  "sorted_wrt (<) ps \<Longrightarrow> \<forall>x \<in> set (peakIntervals ps). 0 < x"
  by (induction ps rule: peakIntervals.induct) auto

lemma medianInterval_positive:
  assumes "0 < sRate" and "peakIntervals (detectPeaks data sRate) \<noteq> []"
  shows "0 < sort (peakIntervals (detectPeaks data sRate)) !
               (length (sort (peakIntervals (detectPeaks data sRate))) div 2)"
proof -
  let ?xs = "peakIntervals (detectPeaks data sRate)"
  from assms(2) have "length (sort ?xs) div 2 < length (sort ?xs)" by simp
  then have "sort ?xs ! (length (sort ?xs) div 2) \<in> set (sort ?xs)" by (rule nth_mem)
  then have "sort ?xs ! (length (sort ?xs) div 2) \<in> set ?xs" by simp
  with peakIntervals_positive [OF detectPeaks_increasing [OF assms(1)]]
  show ?thesis by blast
qed

text \<open>The mapping and the deck of the example controller.\<close>

lemma exampleMapping:
  "midiMappings exampleAnalogDeck (mappingKey (inputId (eqEvent v)) (midi_note (eqEvent v))) =
     Some \<lparr>map_inputId = ''in1'', map_note = 16, action = ''eq'', map_deckId = Some ''a'',
           parameter = Some ''high''\<rparr>"
  by (simp add: exampleAnalogDeck_def addMIDIMapping_def eqEvent_def)

lemma exampleAnalogDeck_engine: "decks (engine exampleAnalogDeck) ''a'' = 
     Some \<lparr>deck_id = ''a'', gainNode = 1, filterHigh = 0, filterMid = 0, filterLow = 0,
           source = None, buffer = None, isPlaying = False, currentTime = 0,
           startTime = 0, bpm = 0, duration = 0, playbackRate = 1\<rparr>"
  by (simp add: exampleAnalogDeck_def addMIDIMapping_def decks_twoDecks_a)










lemma decks_longEngine:
  "decks longEngine ''a'' =
     Some \<lparr>deck_id = ''a'', gainNode = 1, filterHigh = 0, filterMid = 0, filterLow = 0,
           source = None, buffer = Some longBuffer, isPlaying = False, currentTime = 0,
           startTime = 0, bpm = detectBPM longBuffer, duration = buf_duration longBuffer,
           playbackRate = 1\<rparr>"
  by (simp add: longEngine_def loadAudioFile_def createDeck_def newAudioSync_def Let_def)


text \<open>
  A source that \<open>play\<close> replaces while it plays gets its event too, and the handler
  then takes the deck for ended although the new source plays: the following
  \<open>pause\<close> fails and the position reads 0.
\<close>

lemma replaced_source_resets:
  "\<not> fst (hostPause replacedRun ''a'' 3) \<and> getCurrentTime (hostEngine replacedRun) ''a'' 3 = 0"
  by (simp add: replacedRun_def idleHost_def hostPlay_def hostPause_def play_def pause_def
      decks_longEngine jsOr_def stopsLive_def eventLoop_def finishedBy_def ranOut_def
      onended_def longBuffer_def getCurrentTime_def Let_def)

subsection \<open>Playback rate\<close>

text \<open>
  Claim C6. For every existing deck, \<open>setPlaybackRate\<close> clamps its argument into
  \<open>[0.5, 2.0]\<close> before it stores it in the deck and before it writes it to the source
  of a playing deck (the source of any other deck keeps its rate): the argument 3
  leaves the stored rate 2, the argument 0.1 leaves 0.5.
\<close>

theorem setPlaybackRate_clamps:
  assumes "decks s deckId = Some d"
  shows "storedRate (setPlaybackRate s deckId rate) deckId = Some (max (1/2) (min 2 rate)) \<and>
         sourceRate (setPlaybackRate s deckId rate) deckId =
           (if source d \<noteq> None \<and> isPlaying d then Some (max (1/2) (min 2 rate))
            else sourceRate s deckId) \<and>
         storedRate (setPlaybackRate s deckId 3) deckId = Some 2 \<and>
         storedRate (setPlaybackRate s deckId (1/10)) deckId = Some (1/2)"
  using assms
  by (auto simp: setPlaybackRate_def storedRate_def sourceRate_def Let_def split: option.splits)

theorem setPlaybackRate_clamps_witness:
  "decks playingEngine ''a'' \<noteq> None \<and>
   storedRate (setPlaybackRate playingEngine ''a'' 3) ''a'' = Some 2 \<and>
   sourceRate (setPlaybackRate playingEngine ''a'' 3) ''a'' = Some 2 \<and>
   storedRate (setPlaybackRate playingEngine ''a'' (1/10)) ''a'' = Some (1/2) \<and>
   sourceRate (setPlaybackRate playingEngine ''a'' (1/10)) ''a'' = Some (1/2)"
  using setPlaybackRate_clamps [OF decks_playingEngine, of 3]
    setPlaybackRate_clamps [OF decks_playingEngine, of "1/10"]
  by (simp add: decks_playingEngine)

text \<open>
  Claim C1. The claim is that a backward sample leaves a playing deck at rate 0.1.
  \<open>applyDVSControl\<close> asks for it with \<open>setPlaybackRate(deckId, 0.1)\<close>, and that
  setter clamps to the lower bound: on the playing deck \<open>a\<close> and the backward sample
  of nominal speed, the stored rate and the rate of the source are 0.5, not 0.1.
\<close>

theorem applyDVSControl_backward_clamped:
  "storedRate (applyDVSControl playingEngine ''a'' backwardSample) ''a'' = Some (1/2) \<and>
   sourceRate (applyDVSControl playingEngine ''a'' backwardSample) ''a'' = Some (1/2) \<and>
   storedRate (applyDVSControl playingEngine ''a'' backwardSample) ''a'' \<noteq> Some (1/10)"
  by (simp add: applyDVSControl_def setPlaybackRate_def storedRate_def sourceRate_def
      decks_playingEngine backwardSample_def Let_def)

subsection \<open>Transport position\<close>




text \<open>
  Claim C9. For every deck with a buffer that is paused at a position \<open>p > 0\<close>,
  \<open>play\<close> with the explicit offset 0 does exactly what \<open>play\<close> without offset does,
  and resumes from \<open>p\<close>: the start offset is \<open>offset || currentTime || 0\<close>, in which a
  zero offset is falsy.
\<close>

theorem play_zero_offset_resumes:
  assumes "decks s d = Some dk" and "buffer dk = Some b" and "\<not> isPlaying dk"
    and "currentTime dk = p" and "0 < p"
  shows "play s d (Some 0) now = play s d None now \<and>
         getCurrentTime s d now = p \<and>
         fst (play s d (Some 0) now) \<and>
         sourceOffset (snd (play s d (Some 0) now)) d = Some p \<and>
         getCurrentTime (snd (play s d (Some 0) now)) d now = p"
  using assms
  by (simp add: play_def getCurrentTime_def sourceOffset_def jsOr_def Let_def)

theorem play_zero_offset_resumes_witness:
  "decks pausedEngine ''a'' \<noteq> None \<and> (0::real) < 15 \<and>
   play pausedEngine ''a'' (Some 0) 20 = play pausedEngine ''a'' None 20 \<and>
   getCurrentTime pausedEngine ''a'' 20 = 15 \<and>
   sourceOffset (snd (play pausedEngine ''a'' (Some 0) 20)) ''a'' = Some 15"
proof -
  have h: "decks pausedEngine ''a'' \<noteq> None" by (simp add: decks_pausedEngine)
  have c: "play pausedEngine ''a'' (Some 0) 20 = play pausedEngine ''a'' None 20 \<and>
         getCurrentTime pausedEngine ''a'' 20 = 15 \<and>
         fst (play pausedEngine ''a'' (Some 0) 20) \<and>
         sourceOffset (snd (play pausedEngine ''a'' (Some 0) 20)) ''a'' = Some 15 \<and>
         getCurrentTime (snd (play pausedEngine ''a'' (Some 0) 20)) ''a'' 20 = 15"
    by (rule play_zero_offset_resumes [OF decks_pausedEngine, of exampleBuffer]) simp_all
  have p: "(0::real) < 15" by simp
  from h p c show ?thesis by blast
qed

subsection \<open>Timecode quality\<close>

text \<open>
  Claim C10. Every sample the timecode detector emits has quality exactly 100: a
  sample is emitted only when the average level exceeds 50, and the quality
  \<open>min(100, avgLevel * 2)\<close> is then 100.
\<close>

theorem detect_quality_100:
  assumes "detect det freqData r1 r2 r3 = Some td"
  shows "quality td = 100 \<and> 50 < avgLevel freqData"
proof -
  from assms have big: "50 < avgLevel freqData"
    by (simp add: detect_def split: if_splits)
  from assms big have "quality td = min 100 (avgLevel freqData * 2)"
    by (auto simp: detect_def Let_def split: if_splits)
  with big show ?thesis by (simp add: min_double)
qed

theorem detect_quality_100_witness:
  "detect runningDetector [100, 100] 0 (1/2) 0 = Some backwardSample \<and>
   quality backwardSample = 100 \<and> 50 < avgLevel [100, 100]"
  using detect_quality_100 [OF detect_backwardSample] detect_backwardSample by simp


subsection \<open>Tempo synchronisation\<close>

text \<open>
  Claim C2. For any two existing decks with master BPM 128, slave BPM 124 and slave
  rate 1, \<open>syncDecks\<close> returns the success result with \<open>masterBPM = 128\<close>,
  \<open>slaveBPM = 124\<close> and the rate \<open>128 / 124\<close>, which is also the rate the slave deck
  then stores. The result object carries the rate in its field \<open>playbackRate\<close>.
\<close>

theorem syncDecks_success_128_124:
  assumes "decks s m = Some dm" and "decks s sl = Some ds"
    and "bpm dm = 128" and "bpm ds = 124" and "playbackRate ds = 1"
  shows "fst (syncDecks s m sl) = SyncSuccess 128 124 (128 / 124) \<and>
         success (fst (syncDecks s m sl)) \<and>
         storedRate (snd (syncDecks s m sl)) sl = Some (128 / 124)"
  using assms
  by (simp add: syncDecks_def Let_def success_def setPlaybackRate_def storedRate_def
      split: option.splits)

theorem syncDecks_success_128_124_witness:
  "decks example2_engine ''a'' \<noteq> None \<and> decks example2_engine ''b'' \<noteq> None \<and>
   fst (syncDecks example2_engine ''a'' ''b'') = SyncSuccess 128 124 (128 / 124) \<and>
   success (fst (syncDecks example2_engine ''a'' ''b'')) \<and>
   storedRate (snd (syncDecks example2_engine ''a'' ''b'')) ''b'' = Some (128 / 124)"
proof -
  have h: "decks example2_engine ''a'' \<noteq> None" "decks example2_engine ''b'' \<noteq> None"
    by (simp_all add: decks_example2_a decks_example2_b)
  have c: "fst (syncDecks example2_engine ''a'' ''b'') = SyncSuccess 128 124 (128 / 124) \<and>
           success (fst (syncDecks example2_engine ''a'' ''b'')) \<and>
           storedRate (snd (syncDecks example2_engine ''a'' ''b'')) ''b'' = Some (128 / 124)"
    by (rule syncDecks_success_128_124 [OF decks_example2_a decks_example2_b]) simp_all
  from h c show ?thesis by blast
qed

text \<open>
  Claim C3. When either deck does not exist or either BPM is 0, \<open>syncDecks\<close> returns
  the failure result with reason \<open>missing_bpm\<close> and leaves the whole engine as it was:
  the decks with their rates, the synchronisation state and the list of notifications.
\<close>

theorem syncDecks_missing_bpm:
  assumes "decks s m = None \<or> decks s sl = None \<or>
           (\<exists>d. decks s m = Some d \<and> bpm d = 0) \<or>
           (\<exists>d. decks s sl = Some d \<and> bpm d = 0)"
  shows "syncDecks s m sl = (SyncFailure ''missing_bpm'', s)"
  using assms by (auto simp: syncDecks_def split: option.splits)

theorem syncDecks_missing_bpm_witness:
  "decks twoDecks ''c'' = None \<and>
   syncDecks twoDecks ''a'' ''c'' = (SyncFailure ''missing_bpm'', twoDecks) \<and>
   (\<exists>d. decks (assignBpm twoDecks ''a'' 128) ''b'' = Some d \<and> bpm d = 0) \<and>
   syncDecks (assignBpm twoDecks ''a'' 128) ''a'' ''b'' =
     (SyncFailure ''missing_bpm'', assignBpm twoDecks ''a'' 128)"
proof -
  have h1: "decks twoDecks ''c'' = None"
    by (simp add: twoDecks_def createDeck_def newAudioSync_def Let_def)
  have h2: "\<exists>d. decks (assignBpm twoDecks ''a'' 128) ''b'' = Some d \<and> bpm d = 0"
    by (simp add: assignBpm_def decks_twoDecks_a decks_twoDecks_b)
  have c1: "syncDecks twoDecks ''a'' ''c'' = (SyncFailure ''missing_bpm'', twoDecks)"
    using h1 by (intro syncDecks_missing_bpm) blast
  have c2: "syncDecks (assignBpm twoDecks ''a'' 128) ''a'' ''b'' =
     (SyncFailure ''missing_bpm'', assignBpm twoDecks ''a'' 128)"
    using h2 by (intro syncDecks_missing_bpm) blast
  from h1 h2 c1 c2 show ?thesis by blast
qed

subsection \<open>Tempo estimation\<close>

text \<open>
  Claim C4. For every audio buffer (the host gives every buffer a positive sample
  rate), the value \<open>detectBPM\<close> returns is an integer between 60 and 200.
\<close>

theorem detectBPM_range:
  assumes "0 < sampleRate b"
  shows "60 \<le> detectBPM b \<and> detectBPM b \<le> 200 \<and> detectBPM b \<in> \<int>"
proof (cases "detectBPM_try b")
  case (Inl e)
  then show ?thesis by (simp add: detectBPM_def)
next
  case (Inr v)
  then have "v = 120 \<or> (\<exists>k. v = max 60 (min 200 (real_of_int k)))"
    by (auto simp: detectBPM_try_def Let_def split: sum.splits if_splits)
  then have "60 \<le> v \<and> v \<le> 200 \<and> v \<in> \<int>"
    using clamped_bpm_int by auto
  with Inr show ?thesis by (simp add: detectBPM_def)
qed

theorem detectBPM_range_witness:
  "0 < sampleRate exampleBuffer \<and> 60 \<le> detectBPM exampleBuffer \<and>
   detectBPM exampleBuffer \<le> 200 \<and> detectBPM exampleBuffer \<in> \<int>"
proof -
  have h: "0 < sampleRate exampleBuffer" by (simp add: exampleBuffer_def)
  from h detectBPM_range [OF h] show ?thesis by blast
qed

text \<open>
  Claim C5. When peak detection finds fewer than two peaks, \<open>detectBPM\<close> returns
  exactly 120; and when the body of its \<open>try\<close> block raises, the exception stops
  there and \<open>detectBPM\<close> returns 120 as well.
\<close>

theorem detectBPM_default:
  assumes "(\<exists>data. getChannelData b 0 = Inr data \<and>
              length (detectPeaks (lowPassFilter data (sampleRate b) 200) (sampleRate b)) < 2)
           \<or> (\<exists>e. detectBPM_try b = Inl e)"
  shows "detectBPM b = 120"
  using assms
  by (auto simp: detectBPM_def detectBPM_try_def Let_def peakIntervals_short)

theorem detectBPM_default_witness:
  "getChannelData exampleBuffer 0 = Inr [0, 0, 0, 0] \<and>
   length (detectPeaks (lowPassFilter [0, 0, 0, 0] (sampleRate exampleBuffer) 200)
             (sampleRate exampleBuffer)) < 2 \<and>
   detectBPM exampleBuffer = 120 \<and>
   detectBPM_try noChannelBuffer = Inl IndexSizeError \<and>
   detectBPM noChannelBuffer = 120"
proof -
  have h1: "getChannelData exampleBuffer 0 = Inr [0, 0, 0, 0]"
    by (simp add: getChannelData_def exampleBuffer_def)
  have h2: "length (detectPeaks (lowPassFilter [0, 0, 0, 0] (sampleRate exampleBuffer) 200)
             (sampleRate exampleBuffer)) < 2"
    by (simp add: exampleBuffer_def examplePeaks)
  have h3: "detectBPM_try noChannelBuffer = Inl IndexSizeError"
    by (simp add: detectBPM_try_def getChannelData_def noChannelBuffer_def)
  have c1: "detectBPM exampleBuffer = 120"
    using h1 h2 by (intro detectBPM_default) blast
  have c2: "detectBPM noChannelBuffer = 120"
    using h3 by (intro detectBPM_default) blast
  from h1 h2 h3 c1 c2 show ?thesis by blast
qed

subsection \<open>MIDI equaliser\<close>

text \<open>
  Claim C8. For every event with a normalised value in \<open>[0, 1]\<close> that is mapped to
  the action \<open>eq\<close> with one of the bands \<open>high\<close>, \<open>mid\<close>, \<open>low\<close> of an existing deck,
  the gain of that band after \<open>applyMIDIMapping\<close> is \<open>(value - 0.5) * 24\<close>: 0 dB at
  0.5, 12 dB at 1 and -12 dB at 0, as the instances below show.
\<close>

theorem midi_eq_gain:
  assumes "midiMappings a (mappingKey (inputId ev) (midi_note ev)) = Some m"
    and "action m = ''eq''" and "map_deckId m = Some deckId" and "parameter m = Some band"
    and "band \<in> {''high'', ''mid'', ''low''}" and "decks (engine a) deckId = Some d"
    and "0 \<le> midi_value ev" and "midi_value ev \<le> 1"
  shows "bandGain (engine (applyMIDIMapping a ev now)) deckId band =
           Some ((midi_value ev - 1/2) * 24)"
  using assms
  by (auto simp: applyMIDIMapping_def setEQ_def bandGain_def Let_def max_def min_def)

theorem midi_eq_gain_witness:
  "midiMappings exampleAnalogDeck (mappingKey ''in1'' 16) \<noteq> None \<and>
   bandGain (engine (applyMIDIMapping exampleAnalogDeck (eqEvent (1/2)) 0)) ''a'' ''high'' = Some 0 \<and>
   bandGain (engine (applyMIDIMapping exampleAnalogDeck (eqEvent 1) 0)) ''a'' ''high'' = Some 12 \<and>
   bandGain (engine (applyMIDIMapping exampleAnalogDeck (eqEvent 0) 0)) ''a'' ''high'' = Some (- 12)"
proof -
  have h: "midiMappings exampleAnalogDeck (mappingKey ''in1'' 16) \<noteq> None"
    using exampleMapping [of 0] by (simp add: eqEvent_def)
  have g: "bandGain (engine (applyMIDIMapping exampleAnalogDeck (eqEvent v) 0)) ''a'' ''high'' =
           Some ((v - 1/2) * 24)" if "0 \<le> v" "v \<le> 1" for v
    using that
      midi_eq_gain [where a = exampleAnalogDeck and ev = "eqEvent v" and deckId = "''a''"
        and band = "''high''" and now = 0, OF exampleMapping]
    by (simp add: eqEvent_def exampleAnalogDeck_engine)
  from h g [of "1/2"] g [of 1] g [of 0] show ?thesis by simp
qed

end
